theory Spec2Isabelle
  imports Main "HOL-Library.Word"
begin

section \<open>The constant export table (consts.h)\<close>

text \<open>
  Every line of consts.h is a declaration \<^verbatim>\<open>const T _NAME = NAME;\<close>: a constant of
  the fixed-width unsigned type \<open>T\<close> whose initialiser is a macro of the native library's
  headers. The headers are not part of this repository, so the values of the macros are a
  parameter: a macro environment gives each macro name the integer its expansion
  evaluates to.
\<close>

datatype ctype = uint64_t | uint32_t

fun bits :: "ctype \<Rightarrow> nat" where
  "bits uint64_t = 64"
| "bits uint32_t = 32"

type_synonym macros = "string \<Rightarrow> int"

text \<open>The declarations, in the order of the header: declared type, constant, initialiser.\<close>

definition consts_h :: "(ctype \<times> string \<times> string) list" where
  "consts_h =
    [
     (uint64_t, ''_RTE_ETH_RX_OFFLOAD_VLAN_STRIP'', ''RTE_ETH_RX_OFFLOAD_VLAN_STRIP''),
     (uint64_t, ''_RTE_ETH_RX_OFFLOAD_IPV4_CKSUM'', ''RTE_ETH_RX_OFFLOAD_IPV4_CKSUM''),
     (uint64_t, ''_RTE_ETH_RX_OFFLOAD_UDP_CKSUM'', ''RTE_ETH_RX_OFFLOAD_UDP_CKSUM''),
     (uint64_t, ''_RTE_ETH_RX_OFFLOAD_TCP_CKSUM'', ''RTE_ETH_RX_OFFLOAD_TCP_CKSUM''),
     (uint64_t, ''_RTE_ETH_RX_OFFLOAD_TCP_LRO'', ''RTE_ETH_RX_OFFLOAD_TCP_LRO''),
     (uint64_t, ''_RTE_ETH_RX_OFFLOAD_QINQ_STRIP'', ''RTE_ETH_RX_OFFLOAD_QINQ_STRIP''),
     (uint64_t, ''_RTE_ETH_RX_OFFLOAD_OUTER_IPV4_CKSUM'', ''RTE_ETH_RX_OFFLOAD_OUTER_IPV4_CKSUM''),
     (uint64_t, ''_RTE_ETH_RX_OFFLOAD_MACSEC_STRIP'', ''RTE_ETH_RX_OFFLOAD_MACSEC_STRIP''),
     (uint64_t, ''_RTE_ETH_RX_OFFLOAD_VLAN_FILTER'', ''RTE_ETH_RX_OFFLOAD_VLAN_FILTER''),
     (uint64_t, ''_RTE_ETH_RX_OFFLOAD_VLAN_EXTEND'', ''RTE_ETH_RX_OFFLOAD_VLAN_EXTEND''),
     (uint64_t, ''_RTE_ETH_RX_OFFLOAD_SCATTER'', ''RTE_ETH_RX_OFFLOAD_SCATTER''),
     (uint64_t, ''_RTE_ETH_RX_OFFLOAD_TIMESTAMP'', ''RTE_ETH_RX_OFFLOAD_TIMESTAMP''),
     (uint64_t, ''_RTE_ETH_RX_OFFLOAD_SECURITY'', ''RTE_ETH_RX_OFFLOAD_SECURITY''),
     (uint64_t, ''_RTE_ETH_RX_OFFLOAD_KEEP_CRC'', ''RTE_ETH_RX_OFFLOAD_KEEP_CRC''),
     (uint64_t, ''_RTE_ETH_RX_OFFLOAD_SCTP_CKSUM'', ''RTE_ETH_RX_OFFLOAD_SCTP_CKSUM''),
     (uint64_t, ''_RTE_ETH_RX_OFFLOAD_OUTER_UDP_CKSUM'', ''RTE_ETH_RX_OFFLOAD_OUTER_UDP_CKSUM''),
     (uint64_t, ''_RTE_ETH_RX_OFFLOAD_RSS_HASH'', ''RTE_ETH_RX_OFFLOAD_RSS_HASH''),
     (uint64_t, ''_RTE_ETH_TX_OFFLOAD_VLAN_INSERT'', ''RTE_ETH_TX_OFFLOAD_VLAN_INSERT''),
     (uint64_t, ''_RTE_ETH_TX_OFFLOAD_IPV4_CKSUM'', ''RTE_ETH_TX_OFFLOAD_IPV4_CKSUM''),
     (uint64_t, ''_RTE_ETH_TX_OFFLOAD_UDP_CKSUM'', ''RTE_ETH_TX_OFFLOAD_UDP_CKSUM''),
     (uint64_t, ''_RTE_ETH_TX_OFFLOAD_TCP_CKSUM'', ''RTE_ETH_TX_OFFLOAD_TCP_CKSUM''),
     (uint64_t, ''_RTE_ETH_TX_OFFLOAD_SCTP_CKSUM'', ''RTE_ETH_TX_OFFLOAD_SCTP_CKSUM''),
     (uint64_t, ''_RTE_ETH_TX_OFFLOAD_TCP_TSO'', ''RTE_ETH_TX_OFFLOAD_TCP_TSO''),
     (uint64_t, ''_RTE_ETH_TX_OFFLOAD_UDP_TSO'', ''RTE_ETH_TX_OFFLOAD_UDP_TSO''),
     (uint64_t, ''_RTE_ETH_TX_OFFLOAD_OUTER_IPV4_CKSUM'', ''RTE_ETH_TX_OFFLOAD_OUTER_IPV4_CKSUM''),
     (uint64_t, ''_RTE_ETH_TX_OFFLOAD_QINQ_INSERT'', ''RTE_ETH_TX_OFFLOAD_QINQ_INSERT''),
     (uint64_t, ''_RTE_ETH_TX_OFFLOAD_VXLAN_TNL_TSO'', ''RTE_ETH_TX_OFFLOAD_VXLAN_TNL_TSO''),
     (uint64_t, ''_RTE_ETH_TX_OFFLOAD_GRE_TNL_TSO'', ''RTE_ETH_TX_OFFLOAD_GRE_TNL_TSO''),
     (uint64_t, ''_RTE_ETH_TX_OFFLOAD_IPIP_TNL_TSO'', ''RTE_ETH_TX_OFFLOAD_IPIP_TNL_TSO''),
     (uint64_t, ''_RTE_ETH_TX_OFFLOAD_GENEVE_TNL_TSO'', ''RTE_ETH_TX_OFFLOAD_GENEVE_TNL_TSO''),
     (uint64_t, ''_RTE_ETH_TX_OFFLOAD_MACSEC_INSERT'', ''RTE_ETH_TX_OFFLOAD_MACSEC_INSERT''),
     (uint64_t, ''_RTE_ETH_TX_OFFLOAD_MT_LOCKFREE'', ''RTE_ETH_TX_OFFLOAD_MT_LOCKFREE''),
     (uint64_t, ''_RTE_ETH_TX_OFFLOAD_MULTI_SEGS'', ''RTE_ETH_TX_OFFLOAD_MULTI_SEGS''),
     (uint64_t, ''_RTE_ETH_TX_OFFLOAD_MBUF_FAST_FREE'', ''RTE_ETH_TX_OFFLOAD_MBUF_FAST_FREE''),
     (uint64_t, ''_RTE_ETH_TX_OFFLOAD_SECURITY'', ''RTE_ETH_TX_OFFLOAD_SECURITY''),
     (uint64_t, ''_RTE_ETH_TX_OFFLOAD_UDP_TNL_TSO'', ''RTE_ETH_TX_OFFLOAD_UDP_TNL_TSO''),
     (uint64_t, ''_RTE_ETH_TX_OFFLOAD_IP_TNL_TSO'', ''RTE_ETH_TX_OFFLOAD_IP_TNL_TSO''),
     (uint64_t, ''_RTE_ETH_TX_OFFLOAD_OUTER_UDP_CKSUM'', ''RTE_ETH_TX_OFFLOAD_OUTER_UDP_CKSUM''),
     (uint64_t, ''_RTE_ETH_TX_OFFLOAD_SEND_ON_TIMESTAMP'', ''RTE_ETH_TX_OFFLOAD_SEND_ON_TIMESTAMP''),
     (uint32_t, ''_RTE_ETH_MQ_RX_RSS_FLAG'', ''RTE_ETH_MQ_RX_RSS_FLAG''),
     (uint32_t, ''_RTE_ETH_MQ_RX_DCB_FLAG'', ''RTE_ETH_MQ_RX_DCB_FLAG''),
     (uint32_t, ''_RTE_ETH_MQ_RX_VMDQ_FLAG'', ''RTE_ETH_MQ_RX_VMDQ_FLAG''),
     (uint32_t, ''_RTE_ETH_RSS_IPV4'', ''RTE_ETH_RSS_IPV4''),
     (uint32_t, ''_RTE_ETH_RSS_FRAG_IPV4'', ''RTE_ETH_RSS_FRAG_IPV4''),
     (uint32_t, ''_RTE_ETH_RSS_NONFRAG_IPV4_TCP'', ''RTE_ETH_RSS_NONFRAG_IPV4_TCP''),
     (uint32_t, ''_RTE_ETH_RSS_NONFRAG_IPV4_UDP'', ''RTE_ETH_RSS_NONFRAG_IPV4_UDP''),
     (uint32_t, ''_RTE_ETH_RSS_NONFRAG_IPV4_SCTP'', ''RTE_ETH_RSS_NONFRAG_IPV4_SCTP''),
     (uint32_t, ''_RTE_ETH_RSS_NONFRAG_IPV4_OTHER'', ''RTE_ETH_RSS_NONFRAG_IPV4_OTHER''),
     (uint32_t, ''_RTE_ETH_RSS_IPV6'', ''RTE_ETH_RSS_IPV6''),
     (uint32_t, ''_RTE_ETH_RSS_FRAG_IPV6'', ''RTE_ETH_RSS_FRAG_IPV6''),
     (uint32_t, ''_RTE_ETH_RSS_NONFRAG_IPV6_TCP'', ''RTE_ETH_RSS_NONFRAG_IPV6_TCP''),
     (uint32_t, ''_RTE_ETH_RSS_NONFRAG_IPV6_UDP'', ''RTE_ETH_RSS_NONFRAG_IPV6_UDP''),
     (uint32_t, ''_RTE_ETH_RSS_NONFRAG_IPV6_SCTP'', ''RTE_ETH_RSS_NONFRAG_IPV6_SCTP''),
     (uint32_t, ''_RTE_ETH_RSS_NONFRAG_IPV6_OTHER'', ''RTE_ETH_RSS_NONFRAG_IPV6_OTHER''),
     (uint32_t, ''_RTE_ETH_RSS_L2_PAYLOAD'', ''RTE_ETH_RSS_L2_PAYLOAD''),
     (uint32_t, ''_RTE_ETH_RSS_IPV6_EX'', ''RTE_ETH_RSS_IPV6_EX''),
     (uint32_t, ''_RTE_ETH_RSS_IPV6_TCP_EX'', ''RTE_ETH_RSS_IPV6_TCP_EX''),
     (uint32_t, ''_RTE_ETH_RSS_IPV6_UDP_EX'', ''RTE_ETH_RSS_IPV6_UDP_EX''),
     (uint32_t, ''_RTE_ETH_RSS_PORT'', ''RTE_ETH_RSS_PORT''),
     (uint32_t, ''_RTE_ETH_RSS_VXLAN'', ''RTE_ETH_RSS_VXLAN''),
     (uint32_t, ''_RTE_ETH_RSS_GENEVE'', ''RTE_ETH_RSS_GENEVE''),
     (uint32_t, ''_RTE_ETH_RSS_NVGRE'', ''RTE_ETH_RSS_NVGRE''),
     (uint32_t, ''_RTE_ETH_RSS_GTPU'', ''RTE_ETH_RSS_GTPU''),
     (uint32_t, ''_RTE_ETH_RSS_ETH'', ''RTE_ETH_RSS_ETH''),
     (uint32_t, ''_RTE_ETH_RSS_S_VLAN'', ''RTE_ETH_RSS_S_VLAN''),
     (uint32_t, ''_RTE_ETH_RSS_C_VLAN'', ''RTE_ETH_RSS_C_VLAN''),
     (uint32_t, ''_RTE_ETH_RSS_ESP'', ''RTE_ETH_RSS_ESP''),
     (uint32_t, ''_RTE_ETH_RSS_AH'', ''RTE_ETH_RSS_AH''),
     (uint32_t, ''_RTE_ETH_RSS_L2TPV3'', ''RTE_ETH_RSS_L2TPV3''),
     (uint32_t, ''_RTE_ETH_RSS_PFCP'', ''RTE_ETH_RSS_PFCP''),
     (uint32_t, ''_RTE_ETH_RSS_PPPOE'', ''RTE_ETH_RSS_PPPOE''),
     (uint32_t, ''_RTE_ETH_RSS_ECPRI'', ''RTE_ETH_RSS_ECPRI''),
     (uint32_t, ''_RTE_ETH_RSS_MPLS'', ''RTE_ETH_RSS_MPLS'')
    ]"

text \<open>
  C converts the initialiser to the declared type; for an unsigned type of \<open>w\<close> bits
  that is reduction modulo \<open>2 ^ w\<close>.
\<close>

definition initialise :: "macros \<Rightarrow> ctype \<times> string \<times> string \<Rightarrow> string \<times> int" where
  "initialise M d = (case d of (ty, name, init) \<Rightarrow> (name, M init mod 2 ^ bits ty))"

text \<open>The value an importer of the header sees under a constant's name.\<close>

definition exported :: "macros \<Rightarrow> string \<Rightarrow> int option" where
  "exported M name = map_of (map (initialise M) consts_h) name"

section \<open>The forwarding shim (stub.c)\<close>

text \<open>
  Every function of stub.c runs on a calling thread and acts on the state of the native
  library. The native library is not part of this repository: its state is a type
  parameter, and each native function a stub forwards to is a parameter of that stub.
  A call takes the calling thread and the state; it gives the returned value and the new
  state, or \<open>None\<close> where the behaviour of the C program is undefined (a pointer that does
  not point to an object of the native library).

  C types: \<open>uint16_t\<close> is \<open>16 word\<close>, \<open>uint32_t\<close> and \<open>unsigned\<close> are \<open>32 word\<close>,
  \<open>int\<close> is a \<open>32 word\<close> read by \<open>sint\<close>. A pointer is an address or \<open>NULL\<close>. An array argument
  (\<open>void *const *obj_table\<close>, \<open>struct rte_mbuf **rx_pkts\<close>) is the memory at the pointer,
  read by index; a function that may write to it returns the array with its result.
  The stubs of the C functions \<^verbatim>\<open>_rte_...\<close> are named \<open>stub_rte_...\<close>, since a name
  does not start with an underscore here.
\<close>

type_synonym thread = nat
type_synonym addr = nat
type_synonym ptr = "addr option"

abbreviation NULL :: ptr where
  "NULL \<equiv> None"

type_synonym ('r, 'w) call = "thread \<Rightarrow> 'w \<Rightarrow> ('r \<times> 'w) option"

text \<open>
  The two per-thread variables that stub.c names itself: \<^verbatim>\<open>RTE_PER_LCORE(_lcore_id)\<close>
  and \<^verbatim>\<open>rte_errno\<close>. Each thread has a slot of its own. The rest of the native state
  is the record's extension.
\<close>

record per_lcore =
  per_lcore_lcore_id :: "thread \<Rightarrow> 32 word"
  per_lcore_rte_errno :: "thread \<Rightarrow> 32 word"

definition stub_rte_set_mock_lcore ::
  "32 word \<Rightarrow> (unit, 'a per_lcore_scheme) call" where
  "stub_rte_set_mock_lcore lcore_id t s =
     Some ((), s\<lparr>per_lcore_lcore_id := (per_lcore_lcore_id s)(t := lcore_id)\<rparr>)"

definition stub_rte_lcore_id :: "(32 word, 'w) call \<Rightarrow> (32 word, 'w) call" where
  "stub_rte_lcore_id rte_lcore_id t s = rte_lcore_id t s"

definition stub_rte_errno :: "(32 word, 'a per_lcore_scheme) call" where
  "stub_rte_errno t s = Some (per_lcore_rte_errno s t, s)"

definition stub_rte_pktmbuf_prepend ::
  "(ptr \<Rightarrow> 16 word \<Rightarrow> (ptr, 'w) call) \<Rightarrow> ptr \<Rightarrow> 16 word \<Rightarrow> (ptr, 'w) call" where
  "stub_rte_pktmbuf_prepend rte_pktmbuf_prepend m len t s = rte_pktmbuf_prepend m len t s"

definition stub_rte_pktmbuf_alloc ::
  "(ptr \<Rightarrow> (ptr, 'w) call) \<Rightarrow> ptr \<Rightarrow> (ptr, 'w) call" where
  "stub_rte_pktmbuf_alloc rte_pktmbuf_alloc mp t s = rte_pktmbuf_alloc mp t s"

definition stub_rte_pktmbuf_free ::
  "(ptr \<Rightarrow> (unit, 'w) call) \<Rightarrow> ptr \<Rightarrow> (unit, 'w) call" where
  "stub_rte_pktmbuf_free rte_pktmbuf_free m t s = rte_pktmbuf_free m t s"

definition stub_rte_mempool_put_bulk ::
  "(ptr \<Rightarrow> (nat \<Rightarrow> ptr) \<Rightarrow> 32 word \<Rightarrow> (unit, 'w) call) \<Rightarrow>
   ptr \<Rightarrow> (nat \<Rightarrow> ptr) \<Rightarrow> 32 word \<Rightarrow> (unit, 'w) call" where
  "stub_rte_mempool_put_bulk rte_mempool_put_bulk mp obj_table n t s =
     rte_mempool_put_bulk mp obj_table n t s"

definition stub_rte_eth_rx_burst ::
  "(16 word \<Rightarrow> 16 word \<Rightarrow> (nat \<Rightarrow> ptr) \<Rightarrow> 16 word \<Rightarrow> (16 word \<times> (nat \<Rightarrow> ptr), 'w) call) \<Rightarrow>
   16 word \<Rightarrow> 16 word \<Rightarrow> (nat \<Rightarrow> ptr) \<Rightarrow> 16 word \<Rightarrow> (16 word \<times> (nat \<Rightarrow> ptr), 'w) call" where
  "stub_rte_eth_rx_burst rte_eth_rx_burst port_id queue_id rx_pkts nb_pkts t s =
     rte_eth_rx_burst port_id queue_id rx_pkts nb_pkts t s"

definition stub_rte_eth_tx_burst ::
  "(16 word \<Rightarrow> 16 word \<Rightarrow> (nat \<Rightarrow> ptr) \<Rightarrow> 16 word \<Rightarrow> (16 word \<times> (nat \<Rightarrow> ptr), 'w) call) \<Rightarrow>
   16 word \<Rightarrow> 16 word \<Rightarrow> (nat \<Rightarrow> ptr) \<Rightarrow> 16 word \<Rightarrow> (16 word \<times> (nat \<Rightarrow> ptr), 'w) call" where
  "stub_rte_eth_tx_burst rte_eth_tx_burst port_id queue_id tx_pkts nb_pkts t s =
     rte_eth_tx_burst port_id queue_id tx_pkts nb_pkts t s"

definition stub_rte_pktmbuf_priv_size ::
  "(ptr \<Rightarrow> (16 word, 'w) call) \<Rightarrow> ptr \<Rightarrow> (16 word, 'w) call" where
  "stub_rte_pktmbuf_priv_size rte_pktmbuf_priv_size mp t s = rte_pktmbuf_priv_size mp t s"

definition stub_rte_pktmbuf_data_room_size ::
  "(ptr \<Rightarrow> (16 word, 'w) call) \<Rightarrow> ptr \<Rightarrow> (16 word, 'w) call" where
  "stub_rte_pktmbuf_data_room_size rte_pktmbuf_data_room_size mp t s =
     rte_pktmbuf_data_room_size mp t s"

section \<open>The native library, as far as the specification describes it\<close>

text \<open>
  Modelled from the spec: the state of the native library, which is not in the
  repository. A packet buffer (mbuf) is a descriptor "referencing packet data plus
  metadata (length, offsets)": the address of its data buffer, the headroom in front of
  the packet data and the length of the data. A mempool is a "pool of fixed-size
  objects" with "per-object reserved/usable byte counts" and the objects it holds.
  An interface/queue pair has the buffers it has received and the room it has left for
  transmission.
\<close>

record rte_mbuf =
  buf_addr :: addr
  headroom :: nat
  data_len :: nat

record rte_mempool =
  priv_size :: "16 word"
  data_room_size :: "16 word"
  objs :: "ptr list"

record rte = per_lcore +
  mbufs :: "addr \<rightharpoonup> rte_mbuf"
  mempools :: "addr \<rightharpoonup> rte_mempool"
  rx_ready :: "16 word \<times> 16 word \<Rightarrow> ptr list"
  tx_room :: "16 word \<times> 16 word \<Rightarrow> nat"
  tx_sent :: "16 word \<times> 16 word \<Rightarrow> ptr list"

text \<open>
  Modelled from the spec: the native \<^verbatim>\<open>rte_lcore_id\<close>, a header inline that is not in
  the repository. "Returns the calling thread's assigned logical core identifier", which
  is the per-thread identifier that the mock-lcore setter forces.
\<close>

definition spec_rte_lcore_id :: "(32 word, 'a per_lcore_scheme) call" where
  "spec_rte_lcore_id t s = Some (per_lcore_lcore_id s t, s)"

text \<open>
  Modelled from the spec: the native \<^verbatim>\<open>rte_pktmbuf_prepend\<close>, not in the repository.
  "Grows a packet buffer's addressable header region by a requested length, failing (via
  a null return, per native contract) when insufficient headroom exists." The pointer
  returned on success is the new start of the packet data.
\<close>

definition spec_rte_pktmbuf_prepend :: "ptr \<Rightarrow> 16 word \<Rightarrow> (ptr, rte) call" where
  "spec_rte_pktmbuf_prepend m len t s =
     (case m of
        None \<Rightarrow> None
      | Some a \<Rightarrow>
          (case mbufs s a of
             None \<Rightarrow> None
           | Some b \<Rightarrow>
               if headroom b < unat len then Some (NULL, s)
               else
                 let b' = b\<lparr>headroom := headroom b - unat len,
                            data_len := data_len b + unat len\<rparr>
                 in Some (Some (buf_addr b + headroom b'), s\<lparr>mbufs := (mbufs s)(a \<mapsto> b')\<rparr>)))"

text \<open>
  Modelled from the spec: the native \<^verbatim>\<open>rte_mempool_put_bulk\<close>, not in the repository.
  "Returns multiple objects to a pool in one call; the array must contain exactly the
  declared count": the first \<open>n\<close> elements of the array go back to the pool.
\<close>

definition spec_rte_mempool_put_bulk ::
  "ptr \<Rightarrow> (nat \<Rightarrow> ptr) \<Rightarrow> 32 word \<Rightarrow> (unit, rte) call" where
  "spec_rte_mempool_put_bulk mp obj_table n t s =
     (case mp of
        None \<Rightarrow> None
      | Some a \<Rightarrow>
          (case mempools s a of
             None \<Rightarrow> None
           | Some p \<Rightarrow>
               Some ((), s\<lparr>mempools := (mempools s)
                          (a \<mapsto> p\<lparr>objs := map obj_table [0..<unat n] @ objs p\<rparr>)\<rparr>)))"

text \<open>
  Modelled from the spec: the native \<^verbatim>\<open>rte_eth_rx_burst\<close> and \<^verbatim>\<open>rte_eth_tx_burst\<close>,
  not in the repository. "Requests up to N buffer slots of I/O on a given interface/queue
  pair; returns the number actually transferred, which may be less than requested under
  backpressure or hardware limits": a receive hands over the buffers that are ready, a
  transmit takes the buffers there is room for, each at most the requested number.
\<close>

definition spec_rte_eth_rx_burst ::
  "16 word \<Rightarrow> 16 word \<Rightarrow> (nat \<Rightarrow> ptr) \<Rightarrow> 16 word \<Rightarrow> (16 word \<times> (nat \<Rightarrow> ptr), rte) call" where
  "spec_rte_eth_rx_burst port_id queue_id rx_pkts nb_pkts t s =
     (let q = rx_ready s (port_id, queue_id);
          k = min (unat nb_pkts) (length q)
      in Some ((of_nat k, (\<lambda>i. if i < k then q ! i else rx_pkts i)),
               s\<lparr>rx_ready := (rx_ready s)((port_id, queue_id) := drop k q)\<rparr>))"

definition spec_rte_eth_tx_burst ::
  "16 word \<Rightarrow> 16 word \<Rightarrow> (nat \<Rightarrow> ptr) \<Rightarrow> 16 word \<Rightarrow> (16 word \<times> (nat \<Rightarrow> ptr), rte) call" where
  "spec_rte_eth_tx_burst port_id queue_id tx_pkts nb_pkts t s =
     (let room = tx_room s (port_id, queue_id);
          k = min (unat nb_pkts) room
      in Some ((of_nat k, tx_pkts),
               s\<lparr>tx_room := (tx_room s)((port_id, queue_id) := room - k),
                 tx_sent := (tx_sent s)((port_id, queue_id) :=
                              tx_sent s (port_id, queue_id) @ map tx_pkts [0..<k])\<rparr>))"

text \<open>
  Modelled from the spec: the native \<^verbatim>\<open>rte_pktmbuf_priv_size\<close> and
  \<^verbatim>\<open>rte_pktmbuf_data_room_size\<close>, not in the repository. "Read-only introspection of
  a pool's per-object reserved/usable byte counts."
\<close>

definition spec_rte_pktmbuf_priv_size :: "ptr \<Rightarrow> (16 word, rte) call" where
  "spec_rte_pktmbuf_priv_size mp t s =
     (case mp of
        None \<Rightarrow> None
      | Some a \<Rightarrow> (case mempools s a of None \<Rightarrow> None | Some p \<Rightarrow> Some (priv_size p, s)))"

definition spec_rte_pktmbuf_data_room_size :: "ptr \<Rightarrow> (16 word, rte) call" where
  "spec_rte_pktmbuf_data_room_size mp t s =
     (case mp of
        None \<Rightarrow> None
      | Some a \<Rightarrow> (case mempools s a of None \<Rightarrow> None | Some p \<Rightarrow> Some (data_room_size p, s)))"

section \<open>Histories of per-thread calls\<close>

text \<open>
  The three entry points that touch the per-thread variables, as calls a thread can make
  one after another: the mock-lcore setter, the lcore-id query (over the native query
  above) and the error-code query. \<open>run\<close> performs a history of such calls, each by the
  thread named with it, and gives the final state.
\<close>

datatype tls_call = Set_mock_lcore "32 word" | Lcore_id | Errno

fun do_call :: "tls_call \<Rightarrow> thread \<Rightarrow> 'a per_lcore_scheme \<Rightarrow> 'a per_lcore_scheme option" where
  "do_call (Set_mock_lcore v) t s = map_option snd (stub_rte_set_mock_lcore v t s)"
| "do_call Lcore_id t s = map_option snd (stub_rte_lcore_id spec_rte_lcore_id t s)"
| "do_call Errno t s = map_option snd (stub_rte_errno t s)"

fun run :: "(thread \<times> tls_call) list \<Rightarrow> 'a per_lcore_scheme \<Rightarrow> 'a per_lcore_scheme option" where
  "run [] s = Some s"
| "run ((t, c) # cs) s = (case do_call c t s of None \<Rightarrow> None | Some s' \<Rightarrow> run cs s')"

text \<open>A call that sets the mock lcore of thread \<open>t\<close> to a value other than \<open>V\<close>.\<close>

fun resets :: "thread \<Rightarrow> 32 word \<Rightarrow> thread \<times> tls_call \<Rightarrow> bool" where
  "resets t V (t', Set_mock_lcore v) = (t' = t \<and> v \<noteq> V)"
| "resets t V (t', Lcore_id) = False"
| "resets t V (t', Errno) = False"

section \<open>An example state\<close>

text \<open>
  One packet buffer at address 100 with 128 bytes of headroom, one empty pool at address
  7, no traffic; every thread's lcore id and error code are 0.
\<close>

definition state0 :: rte where
  "state0 =
     \<lparr>per_lcore_lcore_id = (\<lambda>t. 0), per_lcore_rte_errno = (\<lambda>t. 0),
      mbufs = [100 \<mapsto> \<lparr>buf_addr = 4096, headroom = 128, data_len = 60\<rparr>],
      mempools = [7 \<mapsto> \<lparr>priv_size = 16, data_room_size = 2176, objs = []\<rparr>],
      rx_ready = (\<lambda>pq. []), tx_room = (\<lambda>pq. 0), tx_sent = (\<lambda>pq. [])\<rparr>"

section \<open>The constants\<close>

lemma consts_h_names_distinct: "distinct (map (fst \<circ> snd) consts_h)"
  by (simp add: consts_h_def)

text \<open>
  A constant whose macro has a value of the declared type is exported with exactly that
  value.
\<close>

lemma exported_representable:
  assumes "(ty, name, init) \<in> set consts_h" and "0 \<le> M init" and "M init < 2 ^ bits ty"
  shows "exported M name = Some (M init)"
proof -
  have "distinct (map fst (map (initialise M) consts_h))"
    using consts_h_names_distinct by (simp add: initialise_def comp_def case_prod_unfold)
  moreover have "(name, M init mod 2 ^ bits ty) \<in> set (map (initialise M) consts_h)"
    using assms(1) by (force simp: initialise_def)
  ultimately have "exported M name = Some (M init mod 2 ^ bits ty)"
    unfolding exported_def by (rule map_of_is_SomeI)
  with assms(2,3) show ?thesis by simp
qed

text \<open>
  Claim C1: every exported constant has exactly the value of its native macro, at its
  declared type. The RSS hash-field constants are declared \<open>uint32_t\<close>, while the
  native library's RSS selectors are 64-bit masks of one bit each, and those of
  \<^verbatim>\<open>RTE_ETH_RSS_ECPRI\<close> and \<^verbatim>\<open>RTE_ETH_RSS_MPLS\<close> are bits 32 and 33. With such a
  header, whatever the other macros are, the two constants are exported as 0 and not as
  the value of their macro. The offload flags beside them are declared \<open>uint64_t\<close>.
\<close>

theorem consts_h_rss_truncated:
  "exported (M(''RTE_ETH_RSS_ECPRI'' := 2 ^ 32)) ''_RTE_ETH_RSS_ECPRI'' = Some 0 \<and>
   exported (M(''RTE_ETH_RSS_MPLS'' := 2 ^ 33)) ''_RTE_ETH_RSS_MPLS'' = Some 0"
  by (simp add: exported_def consts_h_def initialise_def)

section \<open>The forwarders\<close>

text \<open>
  Claim C3: every forwarding stub, applied to any arguments, gives what the wrapped native
  function gives on the same arguments in the same order: the same returned value (and
  written array) and the same state, or the same undefined behaviour. This holds for
  every native function of the stub's signature.
\<close>

theorem stub_forwards_verbatim:
  "stub_rte_lcore_id rte_lcore_id t s = rte_lcore_id t s \<and>
   stub_rte_pktmbuf_prepend rte_pktmbuf_prepend m len t s = rte_pktmbuf_prepend m len t s \<and>
   stub_rte_pktmbuf_alloc rte_pktmbuf_alloc mp t s = rte_pktmbuf_alloc mp t s \<and>
   stub_rte_pktmbuf_free rte_pktmbuf_free m t s = rte_pktmbuf_free m t s \<and>
   stub_rte_mempool_put_bulk rte_mempool_put_bulk mp obj_table n t s =
     rte_mempool_put_bulk mp obj_table n t s \<and>
   stub_rte_eth_rx_burst rte_eth_rx_burst port_id queue_id pkts nb_pkts t s =
     rte_eth_rx_burst port_id queue_id pkts nb_pkts t s \<and>
   stub_rte_eth_tx_burst rte_eth_tx_burst port_id queue_id pkts nb_pkts t s =
     rte_eth_tx_burst port_id queue_id pkts nb_pkts t s \<and>
   stub_rte_pktmbuf_priv_size rte_pktmbuf_priv_size mp t s = rte_pktmbuf_priv_size mp t s \<and>
   stub_rte_pktmbuf_data_room_size rte_pktmbuf_data_room_size mp t s =
     rte_pktmbuf_data_room_size mp t s"
  by (simp add: stub_rte_lcore_id_def stub_rte_pktmbuf_prepend_def stub_rte_pktmbuf_alloc_def
      stub_rte_pktmbuf_free_def stub_rte_mempool_put_bulk_def stub_rte_eth_rx_burst_def
      stub_rte_eth_tx_burst_def stub_rte_pktmbuf_priv_size_def
      stub_rte_pktmbuf_data_room_size_def)

text \<open>
  Claim C7: the shim has no state of its own, and every call through it is stateless from
  its side. stub.c declares no variable, so the state of a call is the native state and
  nothing else. What a call does to that state: after a forwarder it is the state the
  native function left; the error-code query leaves it as it was; the mock-lcore setter
  writes the calling thread's lcore-id slot and nothing else, neither another thread's
  slot, nor an error code, nor the rest of the native state.
\<close>

theorem shim_holds_no_state:
  "map_option snd (stub_rte_lcore_id rte_lcore_id t w) = map_option snd (rte_lcore_id t w) \<and>
   map_option snd (stub_rte_pktmbuf_prepend rte_pktmbuf_prepend m len t w) =
     map_option snd (rte_pktmbuf_prepend m len t w) \<and>
   map_option snd (stub_rte_pktmbuf_alloc rte_pktmbuf_alloc mp t w) =
     map_option snd (rte_pktmbuf_alloc mp t w) \<and>
   map_option snd (stub_rte_pktmbuf_free rte_pktmbuf_free m t w) =
     map_option snd (rte_pktmbuf_free m t w) \<and>
   map_option snd (stub_rte_mempool_put_bulk rte_mempool_put_bulk mp obj_table n t w) =
     map_option snd (rte_mempool_put_bulk mp obj_table n t w) \<and>
   map_option snd (stub_rte_eth_rx_burst rte_eth_rx_burst port_id queue_id pkts nb_pkts t w) =
     map_option snd (rte_eth_rx_burst port_id queue_id pkts nb_pkts t w) \<and>
   map_option snd (stub_rte_eth_tx_burst rte_eth_tx_burst port_id queue_id pkts nb_pkts t w) =
     map_option snd (rte_eth_tx_burst port_id queue_id pkts nb_pkts t w) \<and>
   map_option snd (stub_rte_pktmbuf_priv_size rte_pktmbuf_priv_size mp t w) =
     map_option snd (rte_pktmbuf_priv_size mp t w) \<and>
   map_option snd (stub_rte_pktmbuf_data_room_size rte_pktmbuf_data_room_size mp t w) =
     map_option snd (rte_pktmbuf_data_room_size mp t w) \<and>
   map_option snd (stub_rte_errno t s) = Some s \<and>
   (\<exists>s'. map_option snd (stub_rte_set_mock_lcore lcore_id t s) = Some s' \<and>
         per_lcore_lcore_id s' = (per_lcore_lcore_id s)(t := lcore_id) \<and>
         per_lcore_rte_errno s' = per_lcore_rte_errno s \<and>
         per_lcore.more s' = per_lcore.more s)"
  by (simp add: stub_rte_lcore_id_def stub_rte_pktmbuf_prepend_def stub_rte_pktmbuf_alloc_def
      stub_rte_pktmbuf_free_def stub_rte_mempool_put_bulk_def stub_rte_eth_rx_burst_def
      stub_rte_eth_tx_burst_def stub_rte_pktmbuf_priv_size_def
      stub_rte_pktmbuf_data_room_size_def stub_rte_errno_def stub_rte_set_mock_lcore_def)

section \<open>The per-thread variables\<close>

text \<open>
  Claim C10: the error-code query is a read of the calling thread's error slot. It returns
  the value in the slot and leaves the whole state as it was, so a second query right
  after the first returns the same value.
\<close>

theorem rte_errno_pure_read:
  "stub_rte_errno t s = Some (per_lcore_rte_errno s t, s) \<and>
   (\<exists>v s1 s2. stub_rte_errno t s = Some (v, s1) \<and> stub_rte_errno t s1 = Some (v, s2) \<and>
      s2 = s)"
  by (simp add: stub_rte_errno_def)

text \<open>
  A history in which thread \<open>t\<close> does not set another value keeps \<open>V\<close> in the slot of \<open>t\<close>,
  and runs to its end.
\<close>

lemma run_keeps_slot:
  "\<not> list_ex (resets t V) cs \<Longrightarrow> per_lcore_lcore_id s t = V \<Longrightarrow>
   \<exists>s'. run cs s = Some s' \<and> per_lcore_lcore_id s' t = V"
proof (induction cs arbitrary: s)
  case Nil
  then show ?case by simp
next
  case (Cons tc cs)
  obtain t' c where tc: "tc = (t', c)" by (cases tc)
  show ?case
  proof (cases c)
    case (Set_mock_lcore v)
    with Cons.prems tc
    have "per_lcore_lcore_id (s\<lparr>per_lcore_lcore_id := (per_lcore_lcore_id s)(t' := v)\<rparr>) t = V"
      by auto
    with Cons tc Set_mock_lcore show ?thesis
      by (simp add: stub_rte_set_mock_lcore_def)
  next
    case Lcore_id
    with Cons tc show ?thesis
      by (simp add: stub_rte_lcore_id_def spec_rte_lcore_id_def)
  next
    case Errno
    with Cons tc show ?thesis
      by (simp add: stub_rte_errno_def)
  qed
qed

text \<open>
  Claim C4: after thread \<open>t\<close> has called the mock-lcore setter with \<open>V\<close>, the lcore-id
  query on \<open>t\<close> returns \<open>V\<close> after any history of setter and query calls, by any threads,
  in which \<open>t\<close> does not call the setter with a different value. The setter changes the
  slot of the calling thread only.
\<close>

theorem mock_lcore_read_after_write:
  assumes "\<not> list_ex (resets t V) cs"
  shows "\<exists>s1 s2. stub_rte_set_mock_lcore V t s = Some ((), s1) \<and>
           s1 = s\<lparr>per_lcore_lcore_id := (per_lcore_lcore_id s)(t := V)\<rparr> \<and>
           run cs s1 = Some s2 \<and>
           stub_rte_lcore_id spec_rte_lcore_id t s2 = Some (V, s2)"
proof -
  let ?s1 = "s\<lparr>per_lcore_lcore_id := (per_lcore_lcore_id s)(t := V)\<rparr>"
  have "per_lcore_lcore_id ?s1 t = V" by simp
  with assms obtain s2 where "run cs ?s1 = Some s2" "per_lcore_lcore_id s2 t = V"
    using run_keeps_slot by blast
  then show ?thesis
    by (simp add: stub_rte_set_mock_lcore_def stub_rte_lcore_id_def spec_rte_lcore_id_def)
qed

theorem mock_lcore_read_after_write_witness:
  "\<not> list_ex (resets 1 5)
      [(2, Set_mock_lcore 9), (1, Lcore_id), (1, Errno), (1, Set_mock_lcore 5), (2, Lcore_id)] \<and>
   (\<exists>s1 s2. stub_rte_set_mock_lcore 5 1 state0 = Some ((), s1) \<and>
      s1 = state0\<lparr>per_lcore_lcore_id := (per_lcore_lcore_id state0)(1 := 5)\<rparr> \<and>
      run [(2, Set_mock_lcore 9), (1, Lcore_id), (1, Errno), (1, Set_mock_lcore 5), (2, Lcore_id)]
        s1 = Some s2 \<and>
      stub_rte_lcore_id spec_rte_lcore_id 1 s2 = Some (5, s2))"
proof -
  have h: "\<not> list_ex (resets 1 5)
      [(2, Set_mock_lcore 9), (1, Lcore_id), (1, Errno), (1, Set_mock_lcore 5), (2, Lcore_id)]"
    by simp
  show ?thesis
    using h mock_lcore_read_after_write [OF h, of state0] by simp
qed

section \<open>The forwarders over the native library of the specification\<close>

lemma of_nat_min_le: "(of_nat (min (unat n) k) :: 16 word) \<le> n"
  by (simp add: word_le_nat_alt le_unat_uoi [of _ n])

text \<open>
  Claim C2: for any port, queue, packet array and requested count \<open>nb_pkts\<close>, the receive
  and the transmit burst forwarders return, and the count they return is at most
  \<open>nb_pkts\<close>.
\<close>

theorem burst_count_le_nb_pkts:
  "(\<exists>k pkts s'.
      stub_rte_eth_rx_burst spec_rte_eth_rx_burst port_id queue_id rx_pkts nb_pkts t s =
        Some ((k, pkts), s') \<and> k \<le> nb_pkts) \<and>
   (\<exists>k pkts s'.
      stub_rte_eth_tx_burst spec_rte_eth_tx_burst port_id queue_id tx_pkts nb_pkts t s =
        Some ((k, pkts), s') \<and> k \<le> nb_pkts)"
  by (simp add: stub_rte_eth_rx_burst_def spec_rte_eth_rx_burst_def
      stub_rte_eth_tx_burst_def spec_rte_eth_tx_burst_def Let_def of_nat_min_le)

text \<open>
  Claim C5: for a packet buffer \<open>b\<close> at \<open>a\<close> and a length \<open>len\<close>, the prepend forwarder
  returns. With enough headroom it returns a pointer that is not null, the new start of
  the data, and the buffer's data has grown by \<open>len\<close> at the cost of its headroom. It
  returns \<open>NULL\<close> exactly when \<open>len\<close> exceeds the headroom, and then the state is as it
  was. In neither case is the error code written.
\<close>

theorem pktmbuf_prepend_headroom:
  assumes "mbufs s a = Some b"
  shows "\<exists>r s'. stub_rte_pktmbuf_prepend spec_rte_pktmbuf_prepend (Some a) len t s = Some (r, s') \<and>
           per_lcore_rte_errno s' = per_lcore_rte_errno s \<and>
           (if headroom b < unat len then r = NULL \<and> s' = s
            else r = Some (buf_addr b + (headroom b - unat len)) \<and>
                 s' = s\<lparr>mbufs := (mbufs s)(a \<mapsto> b\<lparr>headroom := headroom b - unat len,
                                                   data_len := data_len b + unat len\<rparr>)\<rparr>)"
  using assms
  by (simp add: stub_rte_pktmbuf_prepend_def spec_rte_pktmbuf_prepend_def Let_def)

theorem pktmbuf_prepend_headroom_witness:
  "mbufs state0 100 = Some \<lparr>buf_addr = 4096, headroom = 128, data_len = 60\<rparr> \<and>
   stub_rte_pktmbuf_prepend spec_rte_pktmbuf_prepend (Some 100) 14 0 state0 =
     Some (Some 4210,
           state0\<lparr>mbufs := (mbufs state0)
                     (100 \<mapsto> \<lparr>buf_addr = 4096, headroom = 114, data_len = 74\<rparr>)\<rparr>) \<and>
   stub_rte_pktmbuf_prepend spec_rte_pktmbuf_prepend (Some 100) 129 0 state0 =
     Some (NULL, state0)"
proof -
  have h: "mbufs state0 100 = Some \<lparr>buf_addr = 4096, headroom = 128, data_len = 60\<rparr>"
    by (simp add: state0_def)
  show ?thesis
    using h pktmbuf_prepend_headroom [OF h, of 14 0] pktmbuf_prepend_headroom [OF h, of 129 0]
    by auto
qed

text \<open>
  Claim C6: the bulk return forwarder reads no array element beyond the declared count
  \<open>n\<close>: two arrays that agree on their first \<open>n\<close> elements give the same outcome,
  whatever the pool pointer. With \<open>n = 0\<close> the call on a pool changes nothing. The array is \<open>const\<close> for the callee and is not
  written in any case.
\<close>

theorem mempool_put_bulk_within_count:
  assumes "\<forall>i<unat n. obj_table i = obj_table' i" and "mempools s a = Some p"
  shows "stub_rte_mempool_put_bulk spec_rte_mempool_put_bulk mp obj_table n t s =
           stub_rte_mempool_put_bulk spec_rte_mempool_put_bulk mp obj_table' n t s \<and>
         stub_rte_mempool_put_bulk spec_rte_mempool_put_bulk (Some a) obj_table 0 t s =
           Some ((), s)"
proof -
  have eq: "map obj_table [0..<unat n] = map obj_table' [0..<unat n]"
    using assms(1) by simp
  have triv: "s\<lparr>mempools := (mempools s)(a \<mapsto> p)\<rparr> = s"
    using assms(2) by (simp add: map_upd_triv)
  show ?thesis
    using assms(2)
    by (simp add: stub_rte_mempool_put_bulk_def spec_rte_mempool_put_bulk_def eq triv
        split: option.split)
qed

theorem mempool_put_bulk_within_count_witness:
  "mempools state0 7 = Some \<lparr>priv_size = 16, data_room_size = 2176, objs = []\<rparr> \<and>
   stub_rte_mempool_put_bulk spec_rte_mempool_put_bulk (Some 7) (\<lambda>i. Some (200 + i)) 2 0 state0 =
     stub_rte_mempool_put_bulk spec_rte_mempool_put_bulk (Some 7)
       (\<lambda>i. if i < 2 then Some (200 + i) else NULL) 2 0 state0 \<and>
   stub_rte_mempool_put_bulk spec_rte_mempool_put_bulk (Some 7) (\<lambda>i. Some (200 + i)) 0 0 state0 =
     Some ((), state0)"
proof -
  have h1: "\<forall>i<unat (2 :: 32 word).
      (\<lambda>i. Some (200 + i)) i = (\<lambda>i. if i < 2 then Some (200 + i) else NULL) i"
    by simp
  have h2: "mempools state0 7 = Some \<lparr>priv_size = 16, data_room_size = 2176, objs = []\<rparr>"
    by (simp add: state0_def)
  show ?thesis
    using h2 mempool_put_bulk_within_count [OF h1 h2, of "Some 7" 0] by simp
qed

text \<open>
  Claim C8: for a pool \<open>p\<close> at \<open>a\<close>, the two metadata queries return the pool's
  private-size and data-room-size byte counts, and leave the whole state as it was.
\<close>

theorem pool_metadata_read_only:
  assumes "mempools s a = Some p"
  shows "stub_rte_pktmbuf_priv_size spec_rte_pktmbuf_priv_size (Some a) t s =
           Some (priv_size p, s) \<and>
         stub_rte_pktmbuf_data_room_size spec_rte_pktmbuf_data_room_size (Some a) t s =
           Some (data_room_size p, s)"
  using assms
  by (simp add: stub_rte_pktmbuf_priv_size_def spec_rte_pktmbuf_priv_size_def
      stub_rte_pktmbuf_data_room_size_def spec_rte_pktmbuf_data_room_size_def)

theorem pool_metadata_read_only_witness:
  "mempools state0 7 = Some \<lparr>priv_size = 16, data_room_size = 2176, objs = []\<rparr> \<and>
   stub_rte_pktmbuf_priv_size spec_rte_pktmbuf_priv_size (Some 7) 0 state0 = Some (16, state0) \<and>
   stub_rte_pktmbuf_data_room_size spec_rte_pktmbuf_data_room_size (Some 7) 0 state0 =
     Some (2176, state0)"
proof -
  have h: "mempools state0 7 = Some \<lparr>priv_size = 16, data_room_size = 2176, objs = []\<rparr>"
    by (simp add: state0_def)
  show ?thesis
    using h pool_metadata_read_only [OF h, of 0] by simp
qed

end
